theory Spec2Isabelle
  imports Main
begin

section \<open>Python values used by \<open>silx/io/url.py\<close>\<close>

text \<open>
  The module \<open>silx/io/url.py\<close> defines one class, \<open>DataUrl\<close>. Its methods use a
  handful of Python built-ins: \<open>str.split\<close>, \<open>str.startswith\<close>, \<open>str.join\<close>,
  indexing, \<open>int\<close> and \<open>str\<close>. Each is given here as a HOL function. Whatever raises
  in Python returns \<open>Inl\<close> of the exception here.

  A Python \<open>str\<close> is modelled as a \<open>string\<close>, one \<open>char\<close> per code point; the
  code points covered are those below 256.
\<close>

datatype error = AssertionError | IndexError | ValueError | TypeError

definition try_bind :: "error + 'a \<Rightarrow> ('a \<Rightarrow> error + 'b) \<Rightarrow> error + 'b" where
  "try_bind r f = (case r of Inl e \<Rightarrow> Inl e | Inr x \<Rightarrow> f x)"

text \<open>\<open>xs[i]\<close> for a non-negative literal index \<open>i\<close>: IndexError out of range.\<close>

definition getitem :: "'a list \<Rightarrow> nat \<Rightarrow> error + 'a" where
  "getitem xs i = (if i < length xs then Inr (xs ! i) else Inl IndexError)"

text \<open>\<open>s.startswith(p)\<close>.\<close>

definition startswith :: "string \<Rightarrow> string \<Rightarrow> bool" where
  "startswith s p = (take (length p) s = p)"

text \<open>
  \<open>s.split(sep, 1)\<close> for a non-empty separator: the string itself when \<open>sep\<close> does
  not occur, otherwise the text before and the text after the leftmost occurrence.
\<close>

fun split_max1 :: "string \<Rightarrow> string \<Rightarrow> string list" where
  "split_max1 sep [] = [[]]"
| "split_max1 sep (c # cs) =
     (if startswith (c # cs) sep then [[], drop (length sep) (c # cs)]
      else (case split_max1 sep cs of
              [] \<Rightarrow> [[c]]
            | a # rest \<Rightarrow> (c # a) # rest))"

text \<open>\<open>s.split(sep)\<close> for a one-character separator: every occurrence splits.\<close>

fun split_all :: "char \<Rightarrow> string \<Rightarrow> string list" where
  "split_all sep [] = [[]]"
| "split_all sep (c # cs) =
     (if c = sep then [] # split_all sep cs
      else (case split_all sep cs of
              [] \<Rightarrow> [[c]]
            | a # rest \<Rightarrow> (c # a) # rest))"

text \<open>\<open>sep.join(xs)\<close>.\<close>

fun join :: "string \<Rightarrow> string list \<Rightarrow> string" where
  "join sep [] = []"
| "join sep [x] = x"
| "join sep (x # y # ys) = x @ sep @ join sep (y # ys)"

subsection \<open>\<open>int(string)\<close> and \<open>str(integer)\<close>\<close>

text \<open>
  \<open>int(s)\<close> on a string, base ten, as Python 3.6 and later do it: white space is
  removed at both ends, then comes an optional sign, then decimal digits, where a
  single underscore may stand between two digits. Anything else raises ValueError, the
  only exception \<open>int\<close> raises on a string. Below code point 256 the white space that
  \<open>int\<close> removes is 0x09 to 0x0D, 0x20, 0x85 and 0xA0 (the separators 0x1C to 0x1F,
  white space for \<open>str.isspace\<close>, are not removed), and the only decimal digits are
  \<open>0\<close> to \<open>9\<close>. An interpreter that limits the number of digits of a conversion
  raises ValueError beyond the limit; the limit is not modelled.
\<close>

definition int_space :: "char \<Rightarrow> bool" where
  "int_space c = (c \<in> set [CHR 0x09, CHR 0x0A, CHR 0x0B, CHR 0x0C, CHR 0x0D, CHR 0x20,
                           CHR 0x85, CHR 0xA0])"

definition isdigit :: "char \<Rightarrow> bool" where
  "isdigit c = (c \<in> set ''0123456789'')"

definition int_strip :: "string \<Rightarrow> string" where
  "int_strip s = rev (dropWhile int_space (rev (dropWhile int_space s)))"

fun digit_groups :: "string \<Rightarrow> bool" where
  "digit_groups [] = False"
| "digit_groups [c] = isdigit c"
| "digit_groups (c # d # cs) =
     (isdigit c \<and> (if d = CHR ''_'' then digit_groups cs else digit_groups (d # cs)))"

definition digit_value :: "char \<Rightarrow> int" where
  "digit_value c = int (of_char c) - 48"

fun digits_to_int :: "int \<Rightarrow> string \<Rightarrow> int" where
  "digits_to_int acc [] = acc"
| "digits_to_int acc (c # cs) =
     (if c = CHR ''_'' then digits_to_int acc cs
      else digits_to_int (10 * acc + digit_value c) cs)"

definition unsigned_int :: "string \<Rightarrow> error + int" where
  "unsigned_int s = (if digit_groups s then Inr (digits_to_int 0 s) else Inl ValueError)"

definition py_int :: "string \<Rightarrow> error + int" where
  "py_int string =
     (case int_strip string of
        [] \<Rightarrow> Inl ValueError
      | c # cs \<Rightarrow>
          if c = CHR ''-'' then try_bind (unsigned_int cs) (\<lambda>n. Inr (- n))
          else if c = CHR ''+'' then unsigned_int cs
          else unsigned_int (c # cs))"

text \<open>\<open>str(n)\<close> for an integer: the decimal digits, after a minus sign when negative.\<close>

fun str_nat :: "nat \<Rightarrow> string" where
  "str_nat n =
     (if n < 10 then [char_of (48 + n)]
      else str_nat (n div 10) @ [char_of (48 + n mod 10)])"

definition py_str :: "int \<Rightarrow> string" where
  "py_str i = (if i < 0 then CHR ''-'' # str_nat (nat (- i)) else str_nat (nat i))"

text \<open>
  A generator consumed by \<open>tuple(...)\<close> or a list comprehension: the function is
  applied from left to right and the first exception ends the evaluation.
\<close>

fun map_result :: "('a \<Rightarrow> error + 'b) \<Rightarrow> 'a list \<Rightarrow> error + 'b list" where
  "map_result f [] = Inr []"
| "map_result f (x # xs) =
     try_bind (f x) (\<lambda>y. try_bind (map_result f xs) (\<lambda>ys. Inr (y # ys)))"

section \<open>The class \<open>DataUrl\<close>\<close>

text \<open>
  One term of a slicing tuple: \<open>Ellipsis\<close>, \<open>slice(None)\<close>, an integer, or any other
  Python object (which only the constructor from components can receive).
\<close>

datatype slice_term = Ellipsis | FullSlice | Index int | Unsupported

text \<open>
  The private attributes of an instance. The accessors \<open>is_valid()\<close>, \<open>file_path()\<close>,
  \<open>data_path()\<close>, \<open>data_slice()\<close> and \<open>scheme()\<close> return the attribute of the same
  name, so the field selectors stand for them; \<open>cached_path\<close> is the attribute
  \<open>__path\<close>.
\<close>

record DataUrl =
  is_valid :: bool
  file_path :: "string option"
  data_path :: "string option"
  data_slice :: "slice_term list option"
  scheme :: "string option"
  cached_path :: "string option"

text \<open>\<open>x is None\<close> and \<open>x is not None\<close>.\<close>

definition is_None :: "'a option \<Rightarrow> bool" where
  "is_None x = (case x of None \<Rightarrow> True | Some _ \<Rightarrow> False)"

definition is_not_None :: "'a option \<Rightarrow> bool" where
  "is_not_None x = (case x of None \<Rightarrow> False | Some _ \<Rightarrow> True)"

text \<open>\<open>DataUrl.__check_validity\<close> (lines 90 to 106).\<close>

definition check_validity :: "DataUrl \<Rightarrow> DataUrl" where
  "check_validity self =
     (if file_path self \<in> set [None, Some []] then self\<lparr>is_valid := False\<rparr>
      else if is_None (scheme self) then self\<lparr>is_valid := True\<rparr>
      else if scheme self = Some ''fabio'' then self\<lparr>is_valid := is_None (data_path self)\<rparr>
      else if scheme self = Some ''silx'' then
        (let slice_implies_data =
               ((is_None (data_path self) \<and> is_None (data_slice self))
                \<or> is_not_None (data_path self))
         in self\<lparr>is_valid := slice_implies_data\<rparr>)
      else self\<lparr>is_valid := False\<rparr>)"

text \<open>The local function \<open>str_to_slice\<close> of \<open>__parse_from_path\<close> (lines 113 to 119).\<close>

definition str_to_slice :: "string \<Rightarrow> error + slice_term" where
  "str_to_slice string =
     (if string = ''...'' then Inr Ellipsis
      else if string = '':'' then Inr FullSlice
      else try_bind (py_int string) (\<lambda>i. Inr (Index i)))"

text \<open>
  \<open>__parse_from_path\<close>, lines 124 to 135: the scheme and the file part of the first
  element. The result is the pair (scheme, file part).
\<close>

definition parse_scheme :: "string list \<Rightarrow> error + (string option \<times> string)" where
  "parse_scheme elements =
     try_bind (getitem elements 0) (\<lambda>element0.
       let scheme_and_filepath = split_max1 '':'' element0 in
       if length scheme_and_filepath = 2 then
         try_bind (getitem scheme_and_filepath 0) (\<lambda>token.
           if length token \<le> 2 then Inr (None, element0)
           else try_bind (getitem scheme_and_filepath 1) (\<lambda>rest. Inr (Some token, rest)))
       else
         try_bind (getitem scheme_and_filepath 0) (\<lambda>whole. Inr (None, whole)))"

text \<open>\<open>__parse_from_path\<close>, lines 137 to 144: the leading \<open>///\<close> of the file part.\<close>

definition strip_absolute :: "string \<Rightarrow> error + string" where
  "strip_absolute file_part =
     (if startswith file_part ''///'' then
        (let stripped = drop 3 file_part in
         if length stripped > 2 then
           try_bind (getitem stripped 1) (\<lambda>c1.
             if c1 = CHR '':'' then Inr stripped
             else try_bind (getitem stripped 2) (\<lambda>c2.
               if c2 = CHR '':'' then Inr stripped
               else Inr (CHR ''/'' # stripped)))
         else Inr (CHR ''/'' # stripped))
      else Inr file_part)"

text \<open>
  \<open>__parse_from_path\<close>, lines 147 to 172: the selector. The two early \<open>return\<close>s
  leave \<open>__is_valid\<close> false and skip \<open>__check_validity\<close>; only ValueError is caught
  around the conversion of the slice terms.
\<close>

definition parse_selector :: "DataUrl \<Rightarrow> string list \<Rightarrow> error + DataUrl" where
  "parse_selector self0 elements =
     (let self1 = self0\<lparr>data_slice := None, data_path := None\<rparr> in
      if length elements = 1 then Inr (check_validity self1)
      else
        try_bind (getitem elements 1) (\<lambda>selector.
          let selectors = split_max1 ''['' selector in
          try_bind (getitem selectors 0) (\<lambda>name.
            let self2 = self1\<lparr>data_path := (if length name = 0 then None else Some name)\<rparr> in
            if length selectors = 2 then
              try_bind (getitem selectors 1) (\<lambda>bracket.
                let data_slice0 = split_max1 '']'' bracket in
                if length data_slice0 < 2 then Inr (self2\<lparr>is_valid := False\<rparr>)
                else
                  try_bind (getitem data_slice0 1) (\<lambda>trailing.
                    if trailing = [] then
                      try_bind (getitem data_slice0 0) (\<lambda>inner.
                        (case map_result str_to_slice (split_all CHR '','' inner) of
                           Inl e \<Rightarrow>
                             if e = ValueError then Inr (self2\<lparr>is_valid := False\<rparr>)
                             else Inl e
                         | Inr terms \<Rightarrow>
                             Inr (check_validity (self2\<lparr>data_slice := Some terms\<rparr>))))
                    else Inr (self2\<lparr>is_valid := False\<rparr>)))
            else Inr (check_validity self2))))"

text \<open>
  \<open>DataUrl.__parse_from_path\<close> (lines 108 to 172). The instance it receives has
  \<open>__is_valid\<close> set by the constructor and no other attribute yet; every other
  attribute is assigned before it is read and before any \<open>return\<close>, so the fields of
  \<open>self0\<close> other than \<open>is_valid\<close> are placeholders.
\<close>

definition parse_from_path :: "DataUrl \<Rightarrow> string \<Rightarrow> error + DataUrl" where
  "parse_from_path self0 path0 =
     (let elements = split_max1 ''::'' path0;
          self1 = self0\<lparr>cached_path := Some path0\<rparr> in
      try_bind (parse_scheme elements) (\<lambda>(scheme0, file_part).
        try_bind (strip_absolute file_part) (\<lambda>file_path0.
          parse_selector (self1\<lparr>scheme := scheme0, file_path := Some file_path0\<rparr>) elements)))"

text \<open>\<open>DataUrl.__init__\<close> (lines 74 to 88); an \<open>assert\<close> that fails raises.\<close>

definition DataUrl_init ::
  "string option \<Rightarrow> string option \<Rightarrow> string option \<Rightarrow> slice_term list option
     \<Rightarrow> string option \<Rightarrow> error + DataUrl" where
  "DataUrl_init path_arg file_path_arg data_path_arg data_slice_arg scheme_arg =
     (let self0 = \<lparr>is_valid = False, file_path = None, data_path = None,
                   data_slice = None, scheme = None, cached_path = None\<rparr> in
      case path_arg of
        Some path0 \<Rightarrow>
          if is_not_None file_path_arg then Inl AssertionError
          else if is_not_None data_path_arg then Inl AssertionError
          else if is_not_None data_slice_arg then Inl AssertionError
          else if is_not_None scheme_arg then Inl AssertionError
          else parse_from_path self0 path0
      | None \<Rightarrow>
          Inr (check_validity
                 (self0\<lparr>file_path := file_path_arg, data_path := data_path_arg,
                        data_slice := data_slice_arg, scheme := scheme_arg,
                        cached_path := None\<rparr>)))"

text \<open>\<open>DataUrl(path)\<close>: construction from a string alone.\<close>

definition DataUrl_of_path :: "string \<Rightarrow> error + DataUrl" where
  "DataUrl_of_path s = DataUrl_init (Some s) None None None None"

text \<open>
  \<open>DataUrl.is_absolute\<close> (lines 222 to 239). \<open>len(None)\<close> raises TypeError.
\<close>

definition is_absolute :: "DataUrl \<Rightarrow> error + bool" where
  "is_absolute self =
     (case file_path self of
        None \<Rightarrow> Inl TypeError
      | Some fp \<Rightarrow>
          try_bind
            (if length fp > 0 then
               try_bind (getitem fp 0) (\<lambda>c0. Inr (c0 = CHR ''/''))
             else Inr False)
            (\<lambda>starts_with_slash.
               if starts_with_slash then Inr True
               else if length fp > 2 then
                 try_bind (getitem fp 1) (\<lambda>c1.
                   if c1 = CHR '':'' then Inr True
                   else try_bind (getitem fp 2) (\<lambda>c2. Inr (c2 = CHR '':'')))
               else if length fp > 1 then
                 try_bind (getitem fp 1) (\<lambda>c1. Inr (c1 = CHR '':''))
               else Inr False))"

text \<open>The local function \<open>slice_to_string\<close> of \<open>path\<close> (lines 189 to 197).\<close>

fun slice_to_string :: "slice_term \<Rightarrow> error + string" where
  "slice_to_string Ellipsis = Inr ''...''"
| "slice_to_string FullSlice = Inr '':''"
| "slice_to_string (Index i) = Inr (py_str i)"
| "slice_to_string Unsupported = Inl TypeError"

text \<open>\<open>DataUrl.path\<close> (lines 181 to 220).\<close>

definition path :: "DataUrl \<Rightarrow> error + string" where
  "path self =
     (case cached_path self of
        Some p \<Rightarrow> Inr p
      | None \<Rightarrow>
          (let path0 = (case file_path self of None \<Rightarrow> [] | Some fp \<Rightarrow> [] @ fp);
               selector0 = (case data_path self of None \<Rightarrow> [] | Some dp \<Rightarrow> [] @ dp) in
           try_bind
             (case data_slice self of
                None \<Rightarrow> Inr selector0
              | Some terms \<Rightarrow>
                  try_bind (map_result slice_to_string terms) (\<lambda>strs.
                    Inr (selector0 @ ''['' @ join '','' strs @ '']'')))
             (\<lambda>selector.
                let path1 = (if selector = [] then path0 else path0 @ ''::'' @ selector) in
                case scheme self of
                  None \<Rightarrow> Inr path1
                | Some sch \<Rightarrow>
                    try_bind (is_absolute self) (\<lambda>absolute.
                      if absolute then
                        (if startswith path1 ''/'' then Inr (sch @ ''://'' @ path1)
                         else Inr (sch @ '':///'' @ path1))
                      else Inr (sch @ '':'' @ path1)))))"

text \<open>
  The condition under which \<open>__parse_from_path\<close> leaves through one of its two early
  \<open>return\<close>s (lines 161 to 163 and 168 to 170): the selector has an opening bracket
  and the bracket is not closed, or text follows the closing bracket, or the conversion
  of a term raises.
\<close>

definition selector_rejected :: "string \<Rightarrow> bool" where
  "selector_rejected path0 =
     (case split_max1 ''::'' path0 of
        [element0, selector] \<Rightarrow>
          (case split_max1 ''['' selector of
             [name, bracket] \<Rightarrow>
               (case split_max1 '']'' bracket of
                  [inner, trailing] \<Rightarrow>
                    (if trailing = [] then
                       isl (map_result str_to_slice (split_all CHR '','' inner))
                     else True)
                | _ \<Rightarrow> True)
           | _ \<Rightarrow> False)
      | _ \<Rightarrow> False)"

section \<open>Basic facts about the model\<close>

lemma try_bind_Inr [simp]: "try_bind (Inr x) f = f x"
  by (simp add: try_bind_def)

lemma try_bind_Inl [simp]: "try_bind (Inl e) f = Inl e"
  by (simp add: try_bind_def)

lemma split_max1_shape:
  "split_max1 sep s = [s] \<or> (\<exists>a b. split_max1 sep s = [a, b])"
proof (induction s)
  case Nil
  show ?case by simp
next
  case (Cons c cs)
  from Cons.IH show ?case
  proof
    assume "split_max1 sep cs = [cs]"
    then show ?thesis by simp
  next
    assume "\<exists>a b. split_max1 sep cs = [a, b]"
    then obtain a b where "split_max1 sep cs = [a, b]" by blast
    then show ?thesis by simp
  qed
qed

lemma split_max1_single: "split_max1 sep s = [x] \<Longrightarrow> x = s"
  using split_max1_shape [of sep s] by auto

lemma split_max1_colon:
  "CHR '':'' \<in> set seg \<Longrightarrow>
   split_max1 '':'' seg =
     [takeWhile (\<lambda>c. c \<noteq> CHR '':'') seg, tl (dropWhile (\<lambda>c. c \<noteq> CHR '':'') seg)]"
  by (induction seg) (auto simp: startswith_def)

lemma short_token_not_absolute:
  assumes "CHR '':'' \<in> set seg" and "length (takeWhile (\<lambda>c. c \<noteq> CHR '':'') seg) \<le> 2"
  shows "\<not> startswith seg ''///''"
proof
  assume "startswith seg ''///''"
  then obtain r where "seg = CHR ''/'' # CHR ''/'' # CHR ''/'' # r"
    by (cases seg; cases "tl seg"; cases "tl (tl seg)") (auto simp: startswith_def)
  with assms(2) show False by simp
qed

lemma py_int_error: "py_int t = Inl e \<Longrightarrow> e = ValueError"
  by (auto simp: py_int_def unsigned_int_def try_bind_def split: list.splits if_splits)

lemma str_to_slice_error: "str_to_slice t = Inl e \<Longrightarrow> e = ValueError"
  by (auto simp: str_to_slice_def try_bind_def split: if_splits sum.splits dest: py_int_error)

lemma map_result_error:
  "map_result f ts = Inl e \<Longrightarrow> \<exists>t \<in> set ts. f t = Inl e"
  by (induction ts) (auto simp: try_bind_def split: sum.splits)

lemma map_result_fails:
  "t \<in> set ts \<Longrightarrow> f t = Inl e \<Longrightarrow> \<exists>e'. map_result f ts = Inl e'"
  by (induction ts) (auto simp: try_bind_def split: sum.splits)

lemma terms_error: "map_result str_to_slice ts = Inl e \<Longrightarrow> e = ValueError"
  by (auto dest!: map_result_error dest: str_to_slice_error)

lemma slice_to_string_error: "map_result slice_to_string ts = Inl e \<Longrightarrow> e = TypeError"
proof -
  assume "map_result slice_to_string ts = Inl e"
  then obtain t where "slice_to_string t = Inl e" by (auto dest!: map_result_error)
  then show ?thesis by (cases t) auto
qed

lemma parse_scheme_none:
  "split_max1 '':'' e0 = [whole] \<Longrightarrow> parse_scheme (e0 # rest) = Inr (None, e0)"
  using split_max1_single [of "'':''" e0 whole]
  by (simp add: parse_scheme_def getitem_def)

lemma parse_scheme_drive:
  "split_max1 '':'' e0 = [token, r] \<Longrightarrow> length token \<le> 2 \<Longrightarrow>
   parse_scheme (e0 # rest) = Inr (None, e0)"
  by (simp add: parse_scheme_def getitem_def)

lemma parse_scheme_token:
  "split_max1 '':'' e0 = [token, r] \<Longrightarrow> \<not> length token \<le> 2 \<Longrightarrow>
   parse_scheme (e0 # rest) = Inr (Some token, r)"
  by (simp add: parse_scheme_def getitem_def)

lemma parse_scheme_total: "\<exists>sch fp. parse_scheme (e0 # rest) = Inr (sch, fp)"
  using split_max1_shape [of "'':''" e0]
  by (cases "length (hd (split_max1 '':'' e0)) \<le> 2")
     (auto simp: parse_scheme_def getitem_def)

lemma strip_absolute_eq:
  "strip_absolute file_part =
     Inr (if startswith file_part ''///'' then
            (if length (drop 3 file_part) > 2 \<and>
                (drop 3 file_part ! 1 = CHR '':'' \<or> drop 3 file_part ! 2 = CHR '':'')
             then drop 3 file_part else CHR ''/'' # drop 3 file_part)
          else file_part)"
  by (simp add: strip_absolute_def getitem_def Let_def)

lemma strip_absolute_total: "\<exists>f. strip_absolute file_part = Inr f"
  by (simp add: strip_absolute_eq)

lemma parse_selector_single:
  "parse_selector self [e0] =
     Inr (check_validity (self\<lparr>data_slice := None, data_path := None\<rparr>))"
  by (simp add: parse_selector_def)

lemma parse_selector_no_bracket:
  "split_max1 ''['' selector = [name] \<Longrightarrow>
   parse_selector self [e0, selector] =
     Inr (check_validity
            (self\<lparr>data_slice := None, data_path := (if name = [] then None else Some name)\<rparr>))"
  by (simp add: parse_selector_def getitem_def)

lemma parse_selector_unterminated:
  "split_max1 ''['' selector = [name, bracket] \<Longrightarrow> split_max1 '']'' bracket = [x] \<Longrightarrow>
   parse_selector self [e0, selector] =
     Inr (self\<lparr>data_slice := None, data_path := (if name = [] then None else Some name),
              is_valid := False\<rparr>)"
  by (simp add: parse_selector_def getitem_def)

lemma parse_selector_trailing:
  "split_max1 ''['' selector = [name, bracket] \<Longrightarrow>
   split_max1 '']'' bracket = [inner, trailing] \<Longrightarrow> trailing \<noteq> [] \<Longrightarrow>
   parse_selector self [e0, selector] =
     Inr (self\<lparr>data_slice := None, data_path := (if name = [] then None else Some name),
              is_valid := False\<rparr>)"
  by (simp add: parse_selector_def getitem_def)

lemma parse_selector_bad_term:
  "split_max1 ''['' selector = [name, bracket] \<Longrightarrow>
   split_max1 '']'' bracket = [inner, []] \<Longrightarrow>
   map_result str_to_slice (split_all CHR '','' inner) = Inl e \<Longrightarrow>
   parse_selector self [e0, selector] =
     Inr (self\<lparr>data_slice := None, data_path := (if name = [] then None else Some name),
              is_valid := False\<rparr>)"
  by (frule terms_error) (simp add: parse_selector_def getitem_def)

lemma parse_selector_terms:
  "split_max1 ''['' selector = [name, bracket] \<Longrightarrow>
   split_max1 '']'' bracket = [inner, []] \<Longrightarrow>
   map_result str_to_slice (split_all CHR '','' inner) = Inr terms \<Longrightarrow>
   parse_selector self [e0, selector] =
     Inr (check_validity
            (self\<lparr>data_slice := None, data_path := (if name = [] then None else Some name),
                  data_slice := Some terms\<rparr>))"
  by (simp add: parse_selector_def getitem_def)

lemma check_validity_fields [simp]:
  "file_path (check_validity x) = file_path x"
  "data_path (check_validity x) = data_path x"
  "data_slice (check_validity x) = data_slice x"
  "scheme (check_validity x) = scheme x"
  "cached_path (check_validity x) = cached_path x"
  by (simp_all add: check_validity_def Let_def)

lemma check_validity_idem: "check_validity (check_validity x) = check_validity x"
  by (simp add: check_validity_def Let_def)

lemma parse_selector_cases:
  assumes "rest = [] \<or> (\<exists>sel. rest = [sel])"
  shows "(\<exists>x. parse_selector self (e0 # rest) = Inr (check_validity x) \<and>
              file_path x = file_path self \<and> scheme x = scheme self \<and>
              cached_path x = cached_path self)
       \<or> (\<exists>x. parse_selector self (e0 # rest) = Inr (x\<lparr>is_valid := False\<rparr>) \<and>
              file_path x = file_path self \<and> scheme x = scheme self \<and>
              cached_path x = cached_path self \<and> data_slice x = None)"
proof -
  from assms consider "rest = []" | sel where "rest = [sel]" by blast
  then show ?thesis
  proof cases
    case 1
    then show ?thesis by (auto simp: parse_selector_single intro: exI)
  next
    case 2
    from split_max1_shape [of "''[''" sel]
    consider "split_max1 ''['' sel = [sel]"
      | name bracket where "split_max1 ''['' sel = [name, bracket]" by blast
    then show ?thesis
    proof cases
      case 1
      with 2 show ?thesis by (auto simp: parse_selector_no_bracket intro: exI)
    next
      case name: 2
      from split_max1_shape [of "'']''" bracket]
      consider "split_max1 '']'' bracket = [bracket]"
        | inner trailing where "split_max1 '']'' bracket = [inner, trailing]" by blast
      then show ?thesis
      proof cases
        case 1
        with 2 name show ?thesis
          by (auto simp: parse_selector_unterminated intro: exI)
      next
        case inner: 2
        show ?thesis
        proof (cases "trailing = []")
          case False
          with 2 name inner show ?thesis
            by (auto simp: parse_selector_trailing intro: exI)
        next
          case True
          show ?thesis
          proof (cases "map_result str_to_slice (split_all CHR '','' inner)")
            case (Inl e)
            with 2 name inner True show ?thesis
              by (auto simp: parse_selector_bad_term intro: exI)
          next
            case (Inr terms)
            with 2 name inner True show ?thesis
              by (auto simp: parse_selector_terms intro: exI)
          qed
        qed
      qed
    qed
  qed
qed

lemma split_max1_char_found:
  "c \<notin> set a \<Longrightarrow> split_max1 [c] (a @ c # b) = [a, b]"
  by (induction a) (auto simp: startswith_def)

lemma split_max1_char_absent:
  "c \<notin> set a \<Longrightarrow> split_max1 [c] a = [a]"
  by (induction a) (auto simp: startswith_def)

lemma split_double_colon:
  obtains e0 where "split_max1 ''::'' s = [e0]"
  | e0 sel where "split_max1 ''::'' s = [e0, sel]"
  using split_max1_shape [of "''::''" s] by blast

lemma DataUrl_of_path_eq:
  "split_max1 ''::'' s = e0 # rest \<Longrightarrow> parse_scheme (e0 # rest) = Inr (sch, fp) \<Longrightarrow>
   strip_absolute fp = Inr f \<Longrightarrow>
   DataUrl_of_path s =
     parse_selector \<lparr>is_valid = False, file_path = Some f, data_path = None,
                     data_slice = None, scheme = sch, cached_path = Some s\<rparr> (e0 # rest)"
  by (simp add: DataUrl_of_path_def DataUrl_init_def parse_from_path_def is_not_None_def)

text \<open>
  Every construction from a string ends in one of two ways: through the validity check,
  or through an early \<open>return\<close> with \<open>__is_valid\<close> false and no slice stored.
\<close>

lemma DataUrl_of_path_result:
  "\<exists>x f. (DataUrl_of_path s = Inr (check_validity x) \<or>
          DataUrl_of_path s = Inr (x\<lparr>is_valid := False\<rparr>)) \<and>
         file_path x = Some f \<and> cached_path x = Some s"
proof -
  obtain e0 rest where els: "split_max1 ''::'' s = e0 # rest"
      and rest: "rest = [] \<or> (\<exists>sel. rest = [sel])"
    by (rule split_double_colon [of s]) auto
  obtain sch fp where sch: "parse_scheme (e0 # rest) = Inr (sch, fp)"
    using parse_scheme_total by blast
  obtain f where f: "strip_absolute fp = Inr f"
    using strip_absolute_total by blast
  let ?self = "\<lparr>is_valid = False, file_path = Some f, data_path = None,
                 data_slice = None, scheme = sch, cached_path = Some s\<rparr>"
  from parse_selector_cases [OF rest, of ?self e0] DataUrl_of_path_eq [OF els sch f]
  show ?thesis by auto
qed

lemma DataUrl_of_path_file_path:
  assumes "split_max1 ''::'' s = e0 # rest" and "parse_scheme (e0 # rest) = Inr (sch, fp)"
    and "strip_absolute fp = Inr f"
  shows "\<exists>u. DataUrl_of_path s = Inr u \<and> scheme u = sch \<and> file_path u = Some f"
proof -
  from split_max1_shape [of "''::''" s] assms(1)
  have rest: "rest = [] \<or> (\<exists>sel. rest = [sel])" by auto
  let ?self = "\<lparr>is_valid = False, file_path = Some f, data_path = None,
                 data_slice = None, scheme = sch, cached_path = Some s\<rparr>"
  from parse_selector_cases [OF rest, of ?self e0] DataUrl_of_path_eq [OF assms]
  show ?thesis by auto
qed

lemma DataUrl_of_path_cached:
  "DataUrl_of_path s = Inr u \<Longrightarrow> cached_path u = Some s"
  using DataUrl_of_path_result [of s] by auto

text \<open>A rejected selector: the instance that the early \<open>return\<close> leaves behind.\<close>

lemma selector_invalid:
  assumes els: "split_max1 ''::'' s = [e0, selector]"
    and name: "split_max1 ''['' selector = [name, bracket]"
    and bad: "split_max1 '']'' bracket = [x] \<or>
         (\<exists>inner trailing. split_max1 '']'' bracket = [inner, trailing] \<and>
            (trailing \<noteq> [] \<or>
             (\<exists>e. map_result str_to_slice (split_all CHR '','' inner) = Inl e)))"
  shows "\<exists>sch f. DataUrl_of_path s =
           Inr \<lparr>is_valid = False, file_path = Some f,
                data_path = (if name = [] then None else Some name),
                data_slice = None, scheme = sch, cached_path = Some s\<rparr>"
proof -
  obtain sch fp where sch: "parse_scheme [e0, selector] = Inr (sch, fp)"
    using parse_scheme_total by blast
  obtain f where f: "strip_absolute fp = Inr f"
    using strip_absolute_total by blast
  let ?self = "\<lparr>is_valid = False, file_path = Some f, data_path = None,
                 data_slice = None, scheme = sch, cached_path = Some s\<rparr>"
  let ?stopped = "?self\<lparr>data_slice := None,
                    data_path := (if name = [] then None else Some name), is_valid := False\<rparr>"
  from bad consider
      (unterminated) "split_max1 '']'' bracket = [x]"
    | (trailing) inner trailing where
        "split_max1 '']'' bracket = [inner, trailing]" "trailing \<noteq> []"
    | (bad_term) inner e where
        "split_max1 '']'' bracket = [inner, []]"
        "map_result str_to_slice (split_all CHR '','' inner) = Inl e"
    by (metis (full_types))
  then have "parse_selector ?self [e0, selector] = Inr ?stopped"
  proof cases
    case unterminated
    with name show ?thesis by (rule parse_selector_unterminated)
  next
    case trailing
    with name show ?thesis by (rule parse_selector_trailing)
  next
    case bad_term
    with name show ?thesis by (rule parse_selector_bad_term)
  qed
  with DataUrl_of_path_eq [OF els sch f] show ?thesis by simp
qed

lemma bad_term_fails:
  assumes "t \<in> set ts" "t \<noteq> ''...''" "t \<noteq> '':''" "py_int t = Inl ValueError"
  shows "\<exists>e. map_result str_to_slice ts = Inl e"
proof -
  from assms have "str_to_slice t = Inl ValueError" by (simp add: str_to_slice_def)
  with assms(1) show ?thesis by (rule map_result_fails)
qed

lemma DataUrl_init_components:
  "DataUrl_init None fp dp ds sch =
     Inr (check_validity \<lparr>is_valid = False, file_path = fp, data_path = dp,
                          data_slice = ds, scheme = sch, cached_path = None\<rparr>)"
  by (simp add: DataUrl_init_def)

lemma DataUrl_init_path:
  "DataUrl_init (Some s) fp dp ds sch = Inr u \<Longrightarrow> DataUrl_of_path s = Inr u"
  by (auto simp: DataUrl_init_def DataUrl_of_path_def is_not_None_def
           split: if_splits option.splits)

lemma check_validity_silx:
  "scheme x = Some ''silx'' \<Longrightarrow> file_path x = Some f \<Longrightarrow> f \<noteq> [] \<Longrightarrow>
   is_valid (check_validity x) = (data_slice x = None \<or> data_path x \<noteq> None)"
  by (auto simp: check_validity_def is_None_def is_not_None_def split: option.splits)

lemma check_validity_unrecognized:
  "scheme x = Some name \<Longrightarrow> name \<noteq> ''silx'' \<Longrightarrow> name \<noteq> ''fabio'' \<Longrightarrow>
   \<not> is_valid (check_validity x)"
  by (simp add: check_validity_def is_None_def)

text \<open>Without an early \<open>return\<close> the instance is what the validity check produced.\<close>

lemma not_rejected_checked:
  assumes "\<not> selector_rejected s" and "DataUrl_of_path s = Inr u"
  shows "\<exists>x. u = check_validity x"
proof -
  obtain e0 rest where els: "split_max1 ''::'' s = e0 # rest"
      "rest = [] \<or> (\<exists>sel. rest = [sel])"
    by (rule split_double_colon [of s]) auto
  obtain sch fp where sch: "parse_scheme (e0 # rest) = Inr (sch, fp)"
    using parse_scheme_total by blast
  obtain f where f: "strip_absolute fp = Inr f"
    using strip_absolute_total by blast
  let ?self = "\<lparr>is_valid = False, file_path = Some f, data_path = None,
                 data_slice = None, scheme = sch, cached_path = Some s\<rparr>"
  have eq: "parse_selector ?self (e0 # rest) = Inr u"
    using DataUrl_of_path_eq [OF els(1) sch f] assms(2) by simp
  from els(2) consider "rest = []" | sel where "rest = [sel]" by blast
  then show ?thesis
  proof cases
    case 1
    with eq show ?thesis by (auto simp: parse_selector_single)
  next
    case 2
    from split_max1_shape [of "''[''" sel]
    consider "split_max1 ''['' sel = [sel]"
      | name bracket where "split_max1 ''['' sel = [name, bracket]" by blast
    then show ?thesis
    proof cases
      case 1
      with 2 eq show ?thesis by (auto simp: parse_selector_no_bracket)
    next
      case name: 2
      from assms(1) els(1) 2 name
      obtain inner terms where "split_max1 '']'' bracket = [inner, []]"
          "map_result str_to_slice (split_all CHR '','' inner) = Inr terms"
        using split_max1_shape [of "'']''" bracket]
        by (cases "map_result str_to_slice (split_all CHR '','' (hd (split_max1 '']'' bracket)))")
           (auto simp: selector_rejected_def split: if_splits)
      with 2 name eq show ?thesis by (auto simp: parse_selector_terms)
    qed
  qed
qed

text \<open>Serialising an instance that has a scheme and no file path.\<close>

lemma path_without_file_path:
  assumes "file_path u = None" and "cached_path u = None" and "scheme u = Some sch"
  shows "path u = Inl TypeError"
proof (cases "data_slice u")
  case None
  with assms show ?thesis by (simp add: path_def is_absolute_def)
next
  case (Some terms)
  show ?thesis
  proof (cases "map_result slice_to_string terms")
    case (Inl e)
    then have "e = TypeError" by (rule slice_to_string_error)
    with Inl Some assms show ?thesis by (simp add: path_def)
  next
    case (Inr strs)
    with Some assms show ?thesis by (simp add: path_def is_absolute_def)
  qed
qed

section \<open>The claims\<close>

subsection \<open>Parsing the serialised form again\<close>

text \<open>
  Claim C1. For every DataUrl \<open>u\<close> constructed by parsing a string \<open>s\<close>, parsing
  \<open>u.path()\<close> yields an instance with the same scheme, file path, data path and data
  slice as \<open>u\<close>. An instance built from a string keeps that string in \<open>__path\<close> and
  \<open>path()\<close> returns it, so \<open>u.path()\<close> is \<open>s\<close> itself; the statement holds for
  every string, valid or not.
\<close>

theorem reparse_same_fields:
  "DataUrl_of_path s = Inr u \<Longrightarrow>
   path u = Inr s \<and>
   (\<exists>u'. try_bind (path u) DataUrl_of_path = Inr u' \<and>
      scheme u' = scheme u \<and> file_path u' = file_path u \<and>
      data_path u' = data_path u \<and> data_slice u' = data_slice u)"
proof -
  assume u: "DataUrl_of_path s = Inr u"
  then have "cached_path u = Some s" by (rule DataUrl_of_path_cached)
  then have "path u = Inr s" by (simp add: path_def)
  with u show ?thesis by simp
qed

theorem reparse_same_fields_witness:
  "DataUrl_of_path ''fabio:///data/image.edf::[2]'' =
     Inr \<lparr>is_valid = True, file_path = Some ''/data/image.edf'', data_path = None,
          data_slice = Some [Index 2], scheme = Some ''fabio'',
          cached_path = Some ''fabio:///data/image.edf::[2]''\<rparr> \<and>
   path \<lparr>is_valid = True, file_path = Some ''/data/image.edf'', data_path = None,
         data_slice = Some [Index 2], scheme = Some ''fabio'',
         cached_path = Some ''fabio:///data/image.edf::[2]''\<rparr> =
     Inr ''fabio:///data/image.edf::[2]''"
proof -
  have parsed: "DataUrl_of_path ''fabio:///data/image.edf::[2]'' =
     Inr \<lparr>is_valid = True, file_path = Some ''/data/image.edf'', data_path = None,
          data_slice = Some [Index 2], scheme = Some ''fabio'',
          cached_path = Some ''fabio:///data/image.edf::[2]''\<rparr>"
    by code_simp
  from reparse_same_fields [OF parsed] parsed show ?thesis by simp
qed

subsection \<open>A complete silx address\<close>

text \<open>
  Claim C2. Parsing \<open>silx:///data/image.h5::/data/dataset[1,5]\<close> yields the scheme
  \<open>silx\<close>, the file path \<open>/data/image.h5\<close>, the data path \<open>/data/dataset\<close>, the
  data slice (1, 5) and a valid instance.
\<close>

theorem parse_silx_dataset_slice:
  "DataUrl_of_path ''silx:///data/image.h5::/data/dataset[1,5]'' =
     Inr \<lparr>is_valid = True, file_path = Some ''/data/image.h5'',
          data_path = Some ''/data/dataset'', data_slice = Some [Index 1, Index 5],
          scheme = Some ''silx'',
          cached_path = Some ''silx:///data/image.h5::/data/dataset[1,5]''\<rparr>"
  by code_simp

subsection \<open>Malformed selectors\<close>

text \<open>
  Claim C3. When the selector part (what follows the first \<open>::\<close>) has an opening
  bracket and is malformed, parsing raises nothing and yields an instance that is not
  valid. The three ways of being malformed: no closing bracket after the opening one;
  text after the closing bracket; a term between the brackets that is neither
  \<open>...\<close> nor \<open>:\<close> and that \<open>int\<close> refuses. In particular
  \<open>silx:///f.h5::/d[1,x]\<close> is not valid. What \<open>int\<close> accepts as an integer is what
  \<open>py_int\<close> spells out: white space around it and single underscores between digits
  are tolerated.
\<close>

theorem malformed_selector_invalid:
  "(split_max1 ''::'' s = [e0, selector] \<and> CHR ''['' \<notin> set name \<and>
    ((selector = name @ ''['' @ rest \<and> CHR '']'' \<notin> set rest)
     \<or> (selector = name @ ''['' @ inner @ '']'' @ trailing \<and> CHR '']'' \<notin> set inner \<and>
         trailing \<noteq> [])
     \<or> (selector = name @ ''['' @ inner @ '']'' \<and> CHR '']'' \<notin> set inner \<and>
         (\<exists>t \<in> set (split_all CHR '','' inner).
            t \<noteq> ''...'' \<and> t \<noteq> '':'' \<and> py_int t = Inl ValueError)))
    \<longrightarrow> (\<exists>u. DataUrl_of_path s = Inr u \<and> \<not> is_valid u))
   \<and> (\<exists>u. DataUrl_of_path ''silx:///f.h5::/d[1,x]'' = Inr u \<and> \<not> is_valid u)"
proof (intro conjI impI)
  assume a: "split_max1 ''::'' s = [e0, selector] \<and> CHR ''['' \<notin> set name \<and>
    ((selector = name @ ''['' @ rest \<and> CHR '']'' \<notin> set rest)
     \<or> (selector = name @ ''['' @ inner @ '']'' @ trailing \<and> CHR '']'' \<notin> set inner \<and>
         trailing \<noteq> [])
     \<or> (selector = name @ ''['' @ inner @ '']'' \<and> CHR '']'' \<notin> set inner \<and>
         (\<exists>t \<in> set (split_all CHR '','' inner).
            t \<noteq> ''...'' \<and> t \<noteq> '':'' \<and> py_int t = Inl ValueError)))"
  then have els: "split_max1 ''::'' s = [e0, selector]" and name: "CHR ''['' \<notin> set name"
    by simp_all
  from a consider
      (unterminated) "selector = name @ ''['' @ rest" "CHR '']'' \<notin> set rest"
    | (trailing) "selector = name @ ''['' @ inner @ '']'' @ trailing" "CHR '']'' \<notin> set inner"
        "trailing \<noteq> []"
    | (bad_term) t where "selector = name @ ''['' @ inner @ '']''" "CHR '']'' \<notin> set inner"
        "t \<in> set (split_all CHR '','' inner)" "t \<noteq> ''...''" "t \<noteq> '':''"
        "py_int t = Inl ValueError"
    by blast
  then have "\<exists>sch f. DataUrl_of_path s =
           Inr \<lparr>is_valid = False, file_path = Some f,
                data_path = (if name = [] then None else Some name),
                data_slice = None, scheme = sch, cached_path = Some s\<rparr>"
  proof cases
    case unterminated
    from name have "split_max1 ''['' selector = [name, rest]"
      unfolding unterminated(1) using split_max1_char_found [of "CHR ''[''" name rest] by simp
    moreover from unterminated(2) have "split_max1 '']'' rest = [rest]"
      using split_max1_char_absent [of "CHR '']''" rest] by simp
    ultimately show ?thesis using els by (intro selector_invalid) auto
  next
    case trailing
    from name have "split_max1 ''['' selector = [name, inner @ '']'' @ trailing]"
      unfolding trailing(1)
      using split_max1_char_found [of "CHR ''[''" name "inner @ '']'' @ trailing"] by simp
    moreover from trailing(2)
    have "split_max1 '']'' (inner @ '']'' @ trailing) = [inner, trailing]"
      using split_max1_char_found [of "CHR '']''" inner trailing] by simp
    ultimately show ?thesis using els trailing(3) by (intro selector_invalid) auto
  next
    case bad_term
    from name have "split_max1 ''['' selector = [name, inner @ '']'']"
      unfolding bad_term(1)
      using split_max1_char_found [of "CHR ''[''" name "inner @ '']''"] by simp
    moreover from bad_term(2) have "split_max1 '']'' (inner @ '']'') = [inner, []]"
      using split_max1_char_found [of "CHR '']''" inner "[]"] by simp
    moreover have "\<exists>e. map_result str_to_slice (split_all CHR '','' inner) = Inl e"
      using bad_term(3-6) by (rule bad_term_fails)
    ultimately show ?thesis using els by (intro selector_invalid) auto
  qed
  then show "\<exists>u. DataUrl_of_path s = Inr u \<and> \<not> is_valid u" by auto
next
  have "DataUrl_of_path ''silx:///f.h5::/d[1,x]'' =
     Inr \<lparr>is_valid = False, file_path = Some ''/f.h5'', data_path = Some ''/d'',
          data_slice = None, scheme = Some ''silx'',
          cached_path = Some ''silx:///f.h5::/d[1,x]''\<rparr>"
    by code_simp
  then show "\<exists>u. DataUrl_of_path ''silx:///f.h5::/d[1,x]'' = Inr u \<and> \<not> is_valid u"
    by simp
qed

text \<open>
  The three shapes at concrete inputs: an unclosed bracket, text after the bracket, and
  the term \<open>1.5\<close>.
\<close>

theorem malformed_selector_invalid_witness:
  "(split_max1 ''::'' ''silx:///f.h5::/d[1,2'' = [''silx:///f.h5'', ''/d[1,2''] \<and>
    CHR ''['' \<notin> set ''/d'' \<and> CHR '']'' \<notin> set ''1,2'' \<and>
    (\<exists>u. DataUrl_of_path ''silx:///f.h5::/d[1,2'' = Inr u \<and> \<not> is_valid u)) \<and>
   (split_max1 ''::'' ''silx:///f.h5::/d[1]/e'' = [''silx:///f.h5'', ''/d[1]/e''] \<and>
    CHR ''['' \<notin> set ''/d'' \<and> CHR '']'' \<notin> set ''1'' \<and>
    (\<exists>u. DataUrl_of_path ''silx:///f.h5::/d[1]/e'' = Inr u \<and> \<not> is_valid u)) \<and>
   (split_max1 ''::'' ''silx:///f.h5::/d[0,1.5]'' = [''silx:///f.h5'', ''/d[0,1.5]''] \<and>
    CHR ''['' \<notin> set ''/d'' \<and> CHR '']'' \<notin> set ''0,1.5'' \<and>
    ''1.5'' \<in> set (split_all CHR '','' ''0,1.5'') \<and> py_int ''1.5'' = Inl ValueError \<and>
    (\<exists>u. DataUrl_of_path ''silx:///f.h5::/d[0,1.5]'' = Inr u \<and> \<not> is_valid u))"
proof -
  have e1: "split_max1 ''::'' ''silx:///f.h5::/d[1,2'' = [''silx:///f.h5'', ''/d[1,2'']"
    by code_simp
  have e2: "split_max1 ''::'' ''silx:///f.h5::/d[1]/e'' = [''silx:///f.h5'', ''/d[1]/e'']"
    by code_simp
  have e3: "split_max1 ''::'' ''silx:///f.h5::/d[0,1.5]'' = [''silx:///f.h5'', ''/d[0,1.5]'']"
    by code_simp
  have t3: "''1.5'' \<in> set (split_all CHR '','' ''0,1.5'')" by simp
  have i3: "py_int ''1.5'' = Inl ValueError" by code_simp
  have "\<exists>u. DataUrl_of_path ''silx:///f.h5::/d[1,2'' = Inr u \<and> \<not> is_valid u"
    using malformed_selector_invalid
      [of "''silx:///f.h5::/d[1,2''" "''silx:///f.h5''" "''/d[1,2''" "''/d''" "''1,2''"
          "[]" "[]"] e1
    by simp
  moreover have "\<exists>u. DataUrl_of_path ''silx:///f.h5::/d[1]/e'' = Inr u \<and> \<not> is_valid u"
    using malformed_selector_invalid
      [of "''silx:///f.h5::/d[1]/e''" "''silx:///f.h5''" "''/d[1]/e''" "''/d''" "[]"
          "''1''" "''/e''"] e2
    by simp
  moreover have "\<exists>u. DataUrl_of_path ''silx:///f.h5::/d[0,1.5]'' = Inr u \<and> \<not> is_valid u"
    using malformed_selector_invalid
      [of "''silx:///f.h5::/d[0,1.5]''" "''silx:///f.h5''" "''/d[0,1.5]''" "''/d''" "[]"
          "''0,1.5''" "[]"] e3 t3 i3
    by simp
  ultimately show ?thesis using e1 e2 e3 t3 i3 by simp
qed

subsection \<open>Validity under the silx scheme\<close>

text \<open>
  Claim C4, as amended. The claim says that every DataUrl with the scheme \<open>silx\<close> and
  a non-empty file path is valid exactly when its data slice is None or its data path
  is not None. An instance parsed from a string whose selector is rejected has no data
  slice and is not valid all the same, so the equivalence holds for the instances on
  which the validity check ran: those built from components, and those parsed from a
  string whose selector is not rejected. One direction holds for every instance: a
  valid one has no data slice or has a data path, so a data slice without a data path
  is never valid.
\<close>

theorem silx_validity:
  assumes "DataUrl_init path_arg file_path_arg data_path_arg data_slice_arg scheme_arg = Inr u"
    and "scheme u = Some ''silx''" and "file_path u = Some f" and "f \<noteq> []"
  shows "(is_valid u \<longrightarrow> data_slice u = None \<or> data_path u \<noteq> None) \<and>
         ((case path_arg of None \<Rightarrow> True | Some s \<Rightarrow> \<not> selector_rejected s) \<longrightarrow>
            is_valid u = (data_slice u = None \<or> data_path u \<noteq> None))"
proof (cases path_arg)
  case None
  with assms show ?thesis
    by (auto simp: DataUrl_init_components check_validity_silx)
next
  case (Some s)
  with assms(1) have u: "DataUrl_of_path s = Inr u" by (simp add: DataUrl_init_path)
  obtain x where x: "u = check_validity x \<or> u = x\<lparr>is_valid := False\<rparr>"
    using DataUrl_of_path_result [of s] u by auto
  have "is_valid u \<longrightarrow> data_slice u = None \<or> data_path u \<noteq> None"
    using x assms(2-4) by (auto simp: check_validity_silx)
  moreover have "is_valid u = (data_slice u = None \<or> data_path u \<noteq> None)"
    if "\<not> selector_rejected s"
  proof -
    from that u obtain y where "u = check_validity y" using not_rejected_checked by blast
    with assms(2-4) show ?thesis by (auto simp: check_validity_silx)
  qed
  ultimately show ?thesis using Some by simp
qed

text \<open>
  A data path without a slice, parsed from a string, is valid; a slice without a data
  path, given as components, is not.
\<close>

theorem silx_validity_witness:
  "DataUrl_init (Some ''silx:///data/image.edf::/scan_0/detector/data'') None None None None =
     Inr \<lparr>is_valid = True, file_path = Some ''/data/image.edf'',
          data_path = Some ''/scan_0/detector/data'', data_slice = None,
          scheme = Some ''silx'',
          cached_path = Some ''silx:///data/image.edf::/scan_0/detector/data''\<rparr> \<and>
   \<not> selector_rejected ''silx:///data/image.edf::/scan_0/detector/data'' \<and>
   DataUrl_init None (Some ''/data/image.h5'') None (Some [Index 2]) (Some ''silx'') =
     Inr \<lparr>is_valid = False, file_path = Some ''/data/image.h5'', data_path = None,
          data_slice = Some [Index 2], scheme = Some ''silx'', cached_path = None\<rparr>"
proof -
  let ?u = "\<lparr>is_valid = True, file_path = Some ''/data/image.edf'',
          data_path = Some ''/scan_0/detector/data'', data_slice = None,
          scheme = Some ''silx'',
          cached_path = Some ''silx:///data/image.edf::/scan_0/detector/data''\<rparr>"
  let ?v = "\<lparr>is_valid = False, file_path = Some ''/data/image.h5'', data_path = None,
          data_slice = Some [Index 2], scheme = Some ''silx'', cached_path = None\<rparr>"
  have parsed: "DataUrl_init (Some ''silx:///data/image.edf::/scan_0/detector/data'')
                  None None None None = Inr ?u"
    by code_simp
  have kept: "\<not> selector_rejected ''silx:///data/image.edf::/scan_0/detector/data''"
    by code_simp
  have built: "DataUrl_init None (Some ''/data/image.h5'') None (Some [Index 2])
                 (Some ''silx'') = Inr ?v"
    by code_simp
  have "is_valid ?u = (data_slice ?u = None \<or> data_path ?u \<noteq> None)"
    using silx_validity [OF parsed, of "''/data/image.edf''"] kept by simp
  moreover have "is_valid ?v = (data_slice ?v = None \<or> data_path ?v \<noteq> None)"
    using silx_validity [OF built, of "''/data/image.h5''"] by simp
  ultimately show ?thesis using parsed kept built by simp
qed

text \<open>
  The claim as it is written fails on a parsed instance: the term \<open>1.5\<close> is refused,
  the instance keeps the scheme \<open>silx\<close>, a file path and a data path, has no data
  slice, and is not valid.
\<close>

theorem silx_validity_counterexample:
  "DataUrl_of_path ''silx:///data/image.h5::/data/dataset[1.5]'' =
     Inr \<lparr>is_valid = False, file_path = Some ''/data/image.h5'',
          data_path = Some ''/data/dataset'', data_slice = None, scheme = Some ''silx'',
          cached_path = Some ''silx:///data/image.h5::/data/dataset[1.5]''\<rparr>"
  by code_simp

subsection \<open>Unrecognised schemes\<close>

text \<open>
  Claim C5. Every DataUrl whose scheme is a string other than \<open>silx\<close> and \<open>fabio\<close>
  is not valid, whatever its file path, data path and data slice are, and whether it
  was parsed from a string or built from components.
\<close>

theorem unrecognized_scheme_invalid:
  assumes "DataUrl_init path_arg file_path_arg data_path_arg data_slice_arg scheme_arg = Inr u"
    and "scheme u = Some name" and "name \<noteq> ''silx''" and "name \<noteq> ''fabio''"
  shows "\<not> is_valid u"
proof (cases path_arg)
  case None
  with assms show ?thesis
    by (auto simp: DataUrl_init_components check_validity_unrecognized)
next
  case (Some s)
  with assms(1) have u: "DataUrl_of_path s = Inr u" by (simp add: DataUrl_init_path)
  obtain x where "u = check_validity x \<or> u = x\<lparr>is_valid := False\<rparr>"
    using DataUrl_of_path_result [of s] u by auto
  with assms(2-4) show ?thesis by (auto simp: check_validity_unrecognized)
qed

theorem unrecognized_scheme_invalid_witness:
  "DataUrl_init (Some ''hdf5:///data/image.h5::/data/dataset'') None None None None =
     Inr \<lparr>is_valid = False, file_path = Some ''/data/image.h5'',
          data_path = Some ''/data/dataset'', data_slice = None, scheme = Some ''hdf5'',
          cached_path = Some ''hdf5:///data/image.h5::/data/dataset''\<rparr> \<and>
   DataUrl_init None (Some ''/data/image.h5'') None None (Some ''hdf5'') =
     Inr \<lparr>is_valid = False, file_path = Some ''/data/image.h5'', data_path = None,
          data_slice = None, scheme = Some ''hdf5'', cached_path = None\<rparr>"
proof -
  let ?u = "\<lparr>is_valid = False, file_path = Some ''/data/image.h5'',
          data_path = Some ''/data/dataset'', data_slice = None, scheme = Some ''hdf5'',
          cached_path = Some ''hdf5:///data/image.h5::/data/dataset''\<rparr>"
  let ?v = "\<lparr>is_valid = False, file_path = Some ''/data/image.h5'', data_path = None,
          data_slice = None, scheme = Some ''hdf5'', cached_path = None\<rparr>"
  have parsed: "DataUrl_init (Some ''hdf5:///data/image.h5::/data/dataset'')
                  None None None None = Inr ?u"
    by code_simp
  have built: "DataUrl_init None (Some ''/data/image.h5'') None None (Some ''hdf5'') = Inr ?v"
    by code_simp
  have "\<not> is_valid ?u"
    by (rule unrecognized_scheme_invalid [OF parsed, of "''hdf5''"]) simp_all
  moreover have "\<not> is_valid ?v"
    by (rule unrecognized_scheme_invalid [OF built, of "''hdf5''"]) simp_all
  ultimately show ?thesis using parsed built by simp
qed

subsection \<open>Drive letters\<close>

text \<open>
  Claim C6. When the part of the input before the first \<open>::\<close> contains a colon and
  the text before its first colon has at most two characters, the scheme is None and
  the file path is that whole part, unchanged. In particular \<open>C:/data/\<close> has no
  scheme, the file path \<open>C:/data/\<close>, and is absolute.
\<close>

theorem drive_letter_no_scheme:
  "(split_max1 ''::'' s = seg # rest \<and> CHR '':'' \<in> set seg \<and>
    length (takeWhile (\<lambda>c. c \<noteq> CHR '':'') seg) \<le> 2
    \<longrightarrow> (\<exists>u. DataUrl_of_path s = Inr u \<and> scheme u = None \<and> file_path u = Some seg))
   \<and> (\<exists>u. DataUrl_of_path ''C:/data/'' = Inr u \<and> scheme u = None \<and>
          file_path u = Some ''C:/data/'' \<and> is_absolute u = Inr True)"
proof (intro conjI impI)
  assume a: "split_max1 ''::'' s = seg # rest \<and> CHR '':'' \<in> set seg \<and>
    length (takeWhile (\<lambda>c. c \<noteq> CHR '':'') seg) \<le> 2"
  then have "parse_scheme (seg # rest) = Inr (None, seg)"
    using split_max1_colon [of seg] by (intro parse_scheme_drive) auto
  moreover from a have "\<not> startswith seg ''///''"
    by (intro short_token_not_absolute) auto
  then have "strip_absolute seg = Inr seg" by (simp add: strip_absolute_eq)
  ultimately show "\<exists>u. DataUrl_of_path s = Inr u \<and> scheme u = None \<and> file_path u = Some seg"
    using a DataUrl_of_path_file_path by blast
next
  have "DataUrl_of_path ''C:/data/'' =
          Inr \<lparr>is_valid = True, file_path = Some ''C:/data/'', data_path = None,
               data_slice = None, scheme = None, cached_path = Some ''C:/data/''\<rparr>"
    by code_simp
  moreover have "is_absolute \<lparr>is_valid = True, file_path = Some ''C:/data/'', data_path = None,
               data_slice = None, scheme = None, cached_path = Some ''C:/data/''\<rparr> = Inr True"
    by code_simp
  ultimately show "\<exists>u. DataUrl_of_path ''C:/data/'' = Inr u \<and> scheme u = None \<and>
          file_path u = Some ''C:/data/'' \<and> is_absolute u = Inr True"
    by simp
qed

theorem drive_letter_no_scheme_witness:
  "split_max1 ''::'' ''D:/scans/image.h5::/entry/data'' = [''D:/scans/image.h5'', ''/entry/data'']
   \<and> CHR '':'' \<in> set ''D:/scans/image.h5''
   \<and> length (takeWhile (\<lambda>c. c \<noteq> CHR '':'') ''D:/scans/image.h5'') \<le> 2
   \<and> (\<exists>u. DataUrl_of_path ''D:/scans/image.h5::/entry/data'' = Inr u \<and> scheme u = None \<and>
          file_path u = Some ''D:/scans/image.h5'')"
proof -
  have els: "split_max1 ''::'' ''D:/scans/image.h5::/entry/data'' =
               [''D:/scans/image.h5'', ''/entry/data'']"
    by code_simp
  have colon: "CHR '':'' \<in> set ''D:/scans/image.h5''" by simp
  have short: "length (takeWhile (\<lambda>c. c \<noteq> CHR '':'') ''D:/scans/image.h5'') \<le> 2" by simp
  from drive_letter_no_scheme
         [of "''D:/scans/image.h5::/entry/data''" "''D:/scans/image.h5''" "[''/entry/data'']"]
       els colon short
  show ?thesis by blast
qed

subsection \<open>The absolute-path marker\<close>

text \<open>
  Claim C7. Let the file part be what the scheme step leaves. If it begins with
  \<open>///\<close>, these three characters are removed; the rest is kept as it is when it is
  longer than two characters and has a colon at position 1 or 2, and gets one \<open>/\<close>
  in front otherwise. A file part that does not begin with \<open>///\<close> becomes the file
  path unmodified.
\<close>

theorem absolute_marker_stripped:
  assumes "parse_scheme (split_max1 ''::'' s) = Inr (sch, file_part)"
  shows "\<exists>u. DataUrl_of_path s = Inr u \<and>
           file_path u =
             Some (if startswith file_part ''///'' then
                     (if length (drop 3 file_part) > 2 \<and>
                         (drop 3 file_part ! 1 = CHR '':'' \<or> drop 3 file_part ! 2 = CHR '':'')
                      then drop 3 file_part
                      else CHR ''/'' # drop 3 file_part)
                   else file_part)"
proof -
  obtain e0 rest where els: "split_max1 ''::'' s = e0 # rest"
    by (rule split_double_colon [of s]) auto
  with assms have "parse_scheme (e0 # rest) = Inr (sch, file_part)" by simp
  from DataUrl_of_path_file_path [OF els this strip_absolute_eq]
  show ?thesis by blast
qed

text \<open>A Windows path, a POSIX path and a relative path after the scheme.\<close>

theorem absolute_marker_stripped_witness:
  "(parse_scheme (split_max1 ''::'' ''silx:///C:/data/image.edf::/scan_0/detector/data'') =
      Inr (Some ''silx'', ''///C:/data/image.edf'') \<and>
    (\<exists>u. DataUrl_of_path ''silx:///C:/data/image.edf::/scan_0/detector/data'' = Inr u \<and>
         file_path u = Some ''C:/data/image.edf'')) \<and>
   (parse_scheme (split_max1 ''::'' ''fabio:///data/image.edf::[2]'') =
      Inr (Some ''fabio'', ''///data/image.edf'') \<and>
    (\<exists>u. DataUrl_of_path ''fabio:///data/image.edf::[2]'' = Inr u \<and>
         file_path u = Some ''/data/image.edf'')) \<and>
   (parse_scheme (split_max1 ''::'' ''silx:./image.h5'') = Inr (Some ''silx'', ''./image.h5'') \<and>
    (\<exists>u. DataUrl_of_path ''silx:./image.h5'' = Inr u \<and> file_path u = Some ''./image.h5''))"
proof -
  have p1: "parse_scheme (split_max1 ''::'' ''silx:///C:/data/image.edf::/scan_0/detector/data'')
              = Inr (Some ''silx'', ''///C:/data/image.edf'')"
    by code_simp
  have p2: "parse_scheme (split_max1 ''::'' ''fabio:///data/image.edf::[2]'') =
              Inr (Some ''fabio'', ''///data/image.edf'')"
    by code_simp
  have p3: "parse_scheme (split_max1 ''::'' ''silx:./image.h5'') =
              Inr (Some ''silx'', ''./image.h5'')"
    by code_simp
  have "\<exists>u. DataUrl_of_path ''silx:///C:/data/image.edf::/scan_0/detector/data'' = Inr u \<and>
         file_path u = Some ''C:/data/image.edf''"
    using absolute_marker_stripped [OF p1] by (simp add: startswith_def)
  moreover have "\<exists>u. DataUrl_of_path ''fabio:///data/image.edf::[2]'' = Inr u \<and>
         file_path u = Some ''/data/image.edf''"
    using absolute_marker_stripped [OF p2] by (simp add: startswith_def)
  moreover have "\<exists>u. DataUrl_of_path ''silx:./image.h5'' = Inr u \<and>
         file_path u = Some ''./image.h5''"
    using absolute_marker_stripped [OF p3] by (simp add: startswith_def)
  ultimately show ?thesis using p1 p2 p3 by simp
qed

subsection \<open>A slice term that is not an integer\<close>

text \<open>
  Claim C8. When parsing stops because a term between the brackets is refused by
  \<open>int\<close>, \<open>data_slice()\<close> is None, whatever terms came before, and \<open>data_path()\<close> is
  the text in front of the opening bracket (None when that text is empty).
\<close>

theorem failed_term_no_slice:
  assumes "split_max1 ''::'' s = [e0, name @ ''['' @ inner @ '']'']"
    and "CHR ''['' \<notin> set name" and "CHR '']'' \<notin> set inner"
    and "t \<in> set (split_all CHR '','' inner)"
    and "t \<noteq> ''...''" and "t \<noteq> '':''" and "py_int t = Inl ValueError"
  shows "\<exists>u. DataUrl_of_path s = Inr u \<and> data_slice u = None \<and>
           data_path u = (if name = [] then None else Some name)"
proof -
  from assms(2) have "split_max1 ''['' (name @ ''['' @ inner @ '']'') = [name, inner @ '']'']"
    using split_max1_char_found [of "CHR ''[''" name "inner @ '']''"] by simp
  moreover from assms(3) have "split_max1 '']'' (inner @ '']'') = [inner, []]"
    using split_max1_char_found [of "CHR '']''" inner "[]"] by simp
  moreover have "\<exists>e. map_result str_to_slice (split_all CHR '','' inner) = Inl e"
    using assms(4-7) by (rule bad_term_fails)
  ultimately have "\<exists>sch f. DataUrl_of_path s =
           Inr \<lparr>is_valid = False, file_path = Some f,
                data_path = (if name = [] then None else Some name),
                data_slice = None, scheme = sch, cached_path = Some s\<rparr>"
    using assms(1) by (intro selector_invalid) auto
  then show ?thesis by auto
qed

text \<open>The terms \<open>1\<close> and \<open>:\<close> convert, the term \<open>five\<close> does not.\<close>

theorem failed_term_no_slice_witness:
  "split_max1 ''::'' ''silx:///data/image.h5::/data/dataset[1,:,five]'' =
     [''silx:///data/image.h5'', ''/data/dataset'' @ ''['' @ ''1,:,five'' @ '']'']
   \<and> CHR ''['' \<notin> set ''/data/dataset'' \<and> CHR '']'' \<notin> set ''1,:,five''
   \<and> ''five'' \<in> set (split_all CHR '','' ''1,:,five'')
   \<and> py_int ''five'' = Inl ValueError
   \<and> (\<exists>u. DataUrl_of_path ''silx:///data/image.h5::/data/dataset[1,:,five]'' = Inr u \<and>
          data_slice u = None \<and> data_path u = Some ''/data/dataset'')"
proof -
  have els: "split_max1 ''::'' ''silx:///data/image.h5::/data/dataset[1,:,five]'' =
     [''silx:///data/image.h5'', ''/data/dataset'' @ ''['' @ ''1,:,five'' @ '']'']"
    by code_simp
  have name: "CHR ''['' \<notin> set ''/data/dataset''" by simp
  have inner: "CHR '']'' \<notin> set ''1,:,five''" by simp
  have t: "''five'' \<in> set (split_all CHR '','' ''1,:,five'')" by simp
  have refused: "py_int ''five'' = Inl ValueError" by code_simp
  have "\<exists>u. DataUrl_of_path ''silx:///data/image.h5::/data/dataset[1,:,five]'' = Inr u \<and>
          data_slice u = None \<and> data_path u = Some ''/data/dataset''"
    using failed_term_no_slice [OF els name inner t _ _ refused] by simp
  with els name inner t refused show ?thesis by blast
qed

subsection \<open>Parsing is total\<close>

text \<open>
  Claim C9. For every input string the construction from a path returns an instance
  (no exception reaches the caller; every function of the model is total, so the
  construction terminates), and \<open>file_path()\<close> of that instance is a string, not None.
  Parsing the empty string gives the empty file path and an instance that is not valid.
\<close>

theorem parse_total:
  "(\<exists>u f. DataUrl_of_path s = Inr u \<and> file_path u = Some f) \<and>
   DataUrl_of_path '''' =
     Inr \<lparr>is_valid = False, file_path = Some '''', data_path = None, data_slice = None,
          scheme = None, cached_path = Some ''''\<rparr>"
proof
  show "\<exists>u f. DataUrl_of_path s = Inr u \<and> file_path u = Some f"
    using DataUrl_of_path_result [of s] by auto
  show "DataUrl_of_path '''' =
     Inr \<lparr>is_valid = False, file_path = Some '''', data_path = None, data_slice = None,
          scheme = None, cached_path = Some ''''\<rparr>"
    by code_simp
qed

subsection \<open>Instances without a file path\<close>

text \<open>
  Claim C10. On a DataUrl built from components with \<open>file_path = None\<close>,
  \<open>is_absolute()\<close> raises (it takes the length of None) instead of returning False,
  and \<open>path()\<close> raises as well whenever the scheme is not None.
\<close>

theorem no_file_path_raises:
  "\<exists>u. DataUrl_init None None data_path_arg data_slice_arg scheme_arg = Inr u \<and>
        is_absolute u = Inl TypeError \<and>
        (scheme_arg \<noteq> None \<longrightarrow> path u = Inl TypeError)"
proof -
  let ?u = "check_validity \<lparr>is_valid = False, file_path = None, data_path = data_path_arg,
              data_slice = data_slice_arg, scheme = scheme_arg, cached_path = None\<rparr>"
  have "DataUrl_init None None data_path_arg data_slice_arg scheme_arg = Inr ?u"
    by (rule DataUrl_init_components)
  moreover have "is_absolute ?u = Inl TypeError" by (simp add: is_absolute_def)
  moreover have "path ?u = Inl TypeError" if "scheme_arg \<noteq> None"
  proof -
    from that obtain sch where "scheme_arg = Some sch" by auto
    then show ?thesis by (intro path_without_file_path [where sch = sch]) auto
  qed
  ultimately show ?thesis by blast
qed

theorem no_file_path_raises_witness:
  "\<exists>u. DataUrl_init None None (Some ''/data/dataset'') (Some [Index 1, Index 5])
          (Some ''silx'') = Inr u \<and>
        is_absolute u = Inl TypeError \<and> path u = Inl TypeError"
  using no_file_path_raises [of "Some ''/data/dataset''" "Some [Index 1, Index 5]" "Some ''silx''"]
  by simp

end
